theory Spec2Isabelle
  imports Complex_Main "HOL-Library.Log_Nat"
begin

section \<open>JavaScript values used by the two components\<close>

text \<open>
  A JavaScript Number is an IEEE 754 binary64 value. A finite non-zero double is carried
  by the rational it denotes (\<open>Fin r\<close>), positive zero is \<open>Fin 0\<close>, and negative zero,
  NaN and the two infinities are constructors of their own.
\<close>

datatype jsnum = Fin rat | NegZero | NaN | PosInf | NegInf

text \<open>
  A property of a props object or of the form values that may be missing:
  \<open>undefined\<close>, \<open>null\<close>, or a value of the type its PropTypes declaration gives.
\<close>

datatype 'a nullable = Undefined | Null | Val 'a

datatype error = TypeError

subsection \<open>Rounding a rational to the nearest double\<close>

definition pow2 :: "int \<Rightarrow> rat" where
  "pow2 k = (if 0 \<le> k then 2 ^ nat k else 1 / 2 ^ nat (- k))"

text \<open>The binary exponent of a positive rational \<open>x\<close>: the \<open>e\<close> with \<open>2^e \<le> x < 2^(e+1)\<close>.\<close>

definition floor_log2 :: "rat \<Rightarrow> int" where
  "floor_log2 x =
     (let k = bitlen (fst (quotient_of x)) - bitlen (snd (quotient_of x))
      in if pow2 k \<le> x then k else k - 1)"

text \<open>Round to the nearest integer, a tie going to the even neighbour.\<close>

definition round_half_even :: "rat \<Rightarrow> int" where
  "round_half_even x =
     (let n = \<lfloor>x\<rfloor>; d = x - of_int n
      in if d < 1 / 2 then n
         else if 1 / 2 < d then n + 1
         else if even n then n else n + 1)"

text \<open>
  The result of an arithmetic operation whose exact value is \<open>x\<close>: round to nearest, ties
  to even, with a 53-bit significand; exponents below \<open>-1022\<close> are subnormal, a result of
  magnitude \<open>2^1024\<close> or more overflows to an infinity, and a result that rounds to zero
  keeps the sign of \<open>x\<close>.
\<close>

definition fl :: "rat \<Rightarrow> jsnum" where
  "fl x =
     (if x = 0 then Fin 0
      else
        let e = max (floor_log2 \<bar>x\<bar>) (- 1022);
            u = pow2 (e - 52);
            r = of_int (round_half_even (x / u)) * u
        in if pow2 1024 \<le> \<bar>r\<bar> then (if 0 < x then PosInf else NegInf)
           else if r = 0 then (if x < 0 then NegZero else Fin 0)
           else Fin r)"

subsection \<open>Number operations\<close>

fun is_zero :: "jsnum \<Rightarrow> bool" where
  "is_zero (Fin r) = (r = 0)"
| "is_zero NegZero = True"
| "is_zero _ = False"

fun is_inf :: "jsnum \<Rightarrow> bool" where
  "is_inf PosInf = True"
| "is_inf NegInf = True"
| "is_inf _ = False"

text \<open>The sign bit (not meaningful for NaN).\<close>

fun is_neg :: "jsnum \<Rightarrow> bool" where
  "is_neg (Fin r) = (r < 0)"
| "is_neg NegZero = True"
| "is_neg NegInf = True"
| "is_neg _ = False"

text \<open>The rational a finite number denotes.\<close>

fun val :: "jsnum \<Rightarrow> rat" where
  "val (Fin r) = r"
| "val _ = 0"

definition signed_zero :: "bool \<Rightarrow> jsnum" where
  "signed_zero neg = (if neg then NegZero else Fin 0)"

definition signed_inf :: "bool \<Rightarrow> jsnum" where
  "signed_inf neg = (if neg then NegInf else PosInf)"

text \<open>\<open>a * b\<close>\<close>

definition js_mul :: "jsnum \<Rightarrow> jsnum \<Rightarrow> jsnum" where
  "js_mul a b =
     (if a = NaN \<or> b = NaN then NaN
      else if is_inf a \<or> is_inf b then
        (if is_zero a \<or> is_zero b then NaN else signed_inf (is_neg a \<noteq> is_neg b))
      else if is_zero a \<or> is_zero b then signed_zero (is_neg a \<noteq> is_neg b)
      else fl (val a * val b))"

text \<open>\<open>a / b\<close>\<close>

definition js_div :: "jsnum \<Rightarrow> jsnum \<Rightarrow> jsnum" where
  "js_div a b =
     (if a = NaN \<or> b = NaN then NaN
      else if is_inf a then
        (if is_inf b then NaN else signed_inf (is_neg a \<noteq> is_neg b))
      else if is_inf b then signed_zero (is_neg a \<noteq> is_neg b)
      else if is_zero b then
        (if is_zero a then NaN else signed_inf (is_neg a \<noteq> is_neg b))
      else if is_zero a then signed_zero (is_neg a \<noteq> is_neg b)
      else fl (val a / val b))"

text \<open>\<open>a - b\<close>\<close>

definition js_sub :: "jsnum \<Rightarrow> jsnum \<Rightarrow> jsnum" where
  "js_sub a b =
     (if a = NaN \<or> b = NaN then NaN
      else if is_inf a then
        (if is_inf b \<and> is_neg a = is_neg b then NaN else a)
      else if is_inf b then signed_inf (\<not> is_neg b)
      else if is_zero a \<and> is_zero b then signed_zero (is_neg a \<and> \<not> is_neg b)
      else if val a = val b then Fin 0
      else fl (val a - val b))"

text \<open>
  \<open>Math.round(x)\<close>: the integer closest to \<open>x\<close>, a tie going towards \<open>+\<infinity>\<close>; NaN, the
  infinities and the zeros are returned unchanged, and a negative \<open>x\<close> that rounds to
  zero gives negative zero.
\<close>

fun Math_round :: "jsnum \<Rightarrow> jsnum" where
  "Math_round (Fin r) =
     (let n = \<lfloor>r + 1 / 2\<rfloor> in if n = 0 \<and> r < 0 then NegZero else Fin (of_int n))"
| "Math_round x = x"

text \<open>\<open>ToNumber\<close> for a value that is a number, \<open>null\<close> or \<open>undefined\<close>.\<close>

fun ToNumber :: "jsnum nullable \<Rightarrow> jsnum" where
  "ToNumber Undefined = NaN"
| "ToNumber Null = Fin 0"
| "ToNumber (Val n) = n"

text \<open>The global \<open>isNaN(v)\<close>: \<open>ToNumber(v)\<close> is NaN.\<close>

definition isNaN :: "jsnum nullable \<Rightarrow> bool" where
  "isNaN v = (ToNumber v = NaN)"

text \<open>\<open>a === b\<close> on numbers: NaN equals nothing, the two zeros are equal.\<close>

definition num_strict_eq :: "jsnum \<Rightarrow> jsnum \<Rightarrow> bool" where
  "num_strict_eq a b =
     (a \<noteq> NaN \<and> b \<noteq> NaN \<and> (a = b \<or> (is_zero a \<and> is_zero b)))"

text \<open>Truthiness: \<open>undefined\<close>, \<open>null\<close>, \<open>false\<close>, the zeros, NaN and \<open>''\<close> are falsy.\<close>

fun truthy_num :: "jsnum nullable \<Rightarrow> bool" where
  "truthy_num (Val n) = (n \<noteq> NaN \<and> \<not> is_zero n)"
| "truthy_num _ = False"

fun truthy_str :: "string nullable \<Rightarrow> bool" where
  "truthy_str (Val s) = (s \<noteq> [])"
| "truthy_str _ = False"

fun truthy_bool :: "bool nullable \<Rightarrow> bool" where
  "truthy_bool (Val b) = b"
| "truthy_bool _ = False"

section \<open>The contribute-tier card (ContributeTier.js)\<close>

subsection \<open>Constants and props\<close>

text \<open>
  Modelled from the spec: the constants table \<^verbatim>\<open>lib/constants/contribution-types\<close> is
  not among the sources; these are the categories that \<^verbatim>\<open>getContributionTypeFromTier\<close>
  returns.
\<close>

datatype ContributionTypes =
  TIER_PASSED | FINANCIAL_GOAL | PRODUCT | TICKET | MEMBERSHIP
  | FINANCIAL_RECURRING | FINANCIAL_ONE_TIME

text \<open>
  Modelled from the spec: the constants table \<^verbatim>\<open>lib/constants/tiers-types\<close> is not among
  the sources; the three tier types the classifier compares \<^verbatim>\<open>tier.type\<close> with are
  distinct strings.
\<close>

definition TierTypes_PRODUCT :: string where
  "TierTypes_PRODUCT = ''PRODUCT''"

definition TierTypes_TICKET :: string where
  "TierTypes_TICKET = ''TICKET''"

definition TierTypes_MEMBERSHIP :: string where
  "TierTypes_MEMBERSHIP = ''MEMBERSHIP''"

text \<open>
  The props, with the shapes of \<^verbatim>\<open>ContributeTier.propTypes\<close>. An end date is the instant
  its date string denotes, in milliseconds, \<open>None\<close> when the tier or collective has none.
\<close>

record Stats =
  totalRecurringDonations :: "jsnum nullable"
  totalDonated :: "jsnum nullable"
  availableQuantity :: "jsnum nullable"

record ParentCollective =
  slug :: string

record Collective =
  slug :: string
  currency :: string
  isActive :: "bool nullable"
  parentCollective :: "ParentCollective option"
  endsAt :: "int option"

record Tier =
  id' :: jsnum
  slug :: string
  name :: string
  currency :: "string nullable"
  interval :: "string nullable"
  endsAt :: "int option"
  goal :: "jsnum nullable"
  type :: "string nullable"
  stats :: Stats

text \<open>What the card passes on to \<^verbatim>\<open>Contribute\<close>.\<close>

record RouteParams =
  collectiveSlug :: string
  verb :: string
  eventSlug :: "string option"
  tierSlug :: "string option"
  tierId :: jsnum

record ContributeProps =
  route :: string
  routeParams :: RouteParams
  type :: ContributionTypes
  disableCTA :: bool
  goal :: "jsnum nullable"
  amountRaised :: "jsnum nullable"
  currency :: "string nullable"
  interval :: "string nullable"

subsection \<open>Helpers imported from lib\<close>

text \<open>
  Modelled from the spec: \<^verbatim>\<open>isTierExpired\<close> of \<^verbatim>\<open>lib/tier-utils\<close> is not among the
  sources. It is called with the tier alone; the tier is expired when its end date, if
  present, is in the past. \<open>now\<close> is the instant of the call.
\<close>

definition isTierExpired :: "int \<Rightarrow> Tier \<Rightarrow> bool" where
  "isTierExpired now tier =
     (case Tier.endsAt tier of None \<Rightarrow> False | Some t \<Rightarrow> t < now)"

text \<open>
  Modelled from the spec: \<^verbatim>\<open>isPastEvent\<close> of \<^verbatim>\<open>lib/events\<close> is not among the sources.
  A collective is a past event when it has an end date and that date is in the past.
\<close>

definition isPastEvent :: "int \<Rightarrow> Collective \<Rightarrow> bool" where
  "isPastEvent now collective =
     (case Collective.endsAt collective of None \<Rightarrow> False | Some t \<Rightarrow> t < now)"

subsection \<open>The classifier and the card\<close>

definition getContributionTypeFromTier :: "Tier \<Rightarrow> bool \<Rightarrow> ContributionTypes" where
  "getContributionTypeFromTier tier isPassed =
     (if isPassed then TIER_PASSED
      else if truthy_num (Tier.goal tier) then FINANCIAL_GOAL
      else if Tier.type tier = Val TierTypes_PRODUCT then PRODUCT
      else if Tier.type tier = Val TierTypes_TICKET then TICKET
      else if Tier.type tier = Val TierTypes_MEMBERSHIP then MEMBERSHIP
      else if truthy_str (Tier.interval tier) then FINANCIAL_RECURRING
      else FINANCIAL_ONE_TIME)"

text \<open>
  The component, up to the props it computes for \<^verbatim>\<open>Contribute\<close>. The description, the
  minimum amount shown and the children are presentation, and the remaining props of
  the caller are passed through unchanged; they are left out. Reading
  \<^verbatim>\<open>collective.parentCollective.slug\<close> throws a TypeError when the collective has no
  parent.
\<close>

definition ContributeTier :: "int \<Rightarrow> Collective \<Rightarrow> Tier \<Rightarrow> error + ContributeProps" where
  "ContributeTier now collective tier =
     (let currency = (if truthy_str (Tier.currency tier) then Tier.currency tier
                      else Val (Collective.currency collective));
          raised = (if truthy_str (Tier.interval tier)
                    then totalRecurringDonations (stats tier)
                    else totalDonated (stats tier));
          tierIsExpired = isTierExpired now tier;
          tierType = getContributionTypeFromTier tier tierIsExpired;
          hasNoneLeft = (case availableQuantity (stats tier) of
                           Val q \<Rightarrow> num_strict_eq q (Fin 0) | _ \<Rightarrow> False);
          canContributeToCollective =
            (truthy_bool (isActive collective) \<and> \<not> isPastEvent now collective);
          isDisabled = (\<not> canContributeToCollective \<or> tierIsExpired \<or> hasNoneLeft);
          props = (\<lambda>r p.
            \<lparr>route = r, routeParams = p, type = tierType, disableCTA = isDisabled,
             goal = Tier.goal tier, amountRaised = raised, currency = currency,
             interval = Tier.interval tier\<rparr>)
      in if tierType = TICKET then
           (case parentCollective collective of
              None \<Rightarrow> Inl TypeError
            | Some parent \<Rightarrow>
                Inr (props ''orderEventTier''
                   \<lparr>collectiveSlug = ParentCollective.slug parent, verb = ''events'',
                    eventSlug = Some (Collective.slug collective), tierSlug = None,
                    tierId = id' tier\<rparr>))
         else
           Inr (props ''orderCollectiveTierNew''
              \<lparr>collectiveSlug = Collective.slug collective, verb = ''contribute'',
               eventSlug = None, tierSlug = Some (Tier.slug tier), tierId = id' tier\<rparr>))"

section \<open>The add-funds modal\<close>

subsection \<open>Props and form values\<close>

text \<open>
  An account (the host, the collective, or the account picked as the source of the
  funds). Its \<^verbatim>\<open>id\<close> is a number for accounts of API V1 and a string for those of V2.
\<close>

datatype ident = IdNum jsnum | IdStr string

record Account =
  id' :: "ident nullable"
  legacyId :: "jsnum nullable"
  currency :: "string nullable"
  name :: "string nullable"
  hostFeePercent :: "jsnum nullable"

record User =
  isRoot :: bool

text \<open>The values of the form, typed as the mutation \<^verbatim>\<open>AddFunds\<close> declares its variables.\<close>

record FormValues =
  amount :: "jsnum nullable"
  hostFeePercent :: "jsnum nullable"
  platformFeePercent :: "jsnum nullable"
  description :: "string nullable"
  fromAccount :: "Account nullable"
  account :: "Account nullable"

text \<open>
  The argument of \<^verbatim>\<open>getInitialValues\<close>: an object that has some of the keys of the form
  values (\<open>None\<close>: the key is absent).
\<close>

record PartialValues =
  amount :: "jsnum nullable option"
  hostFeePercent :: "jsnum nullable option"
  platformFeePercent :: "jsnum nullable option"
  description :: "string nullable option"
  fromAccount :: "Account nullable option"
  account :: "Account nullable option"

text \<open>What Formik hands to the function that renders the form.\<close>

record FormikProps =
  "values" :: FormValues
  isSubmitting :: bool
  isValid :: bool
  dirty :: bool

datatype FormError = FORM_FIELD_REQUIRED

text \<open>An object literal with an \<^verbatim>\<open>id\<close> key, a \<^verbatim>\<open>legacyId\<close> key, or both (\<open>None\<close>: no such key).\<close>

record AccountReference =
  id' :: "ident nullable option"
  legacyId :: "ident nullable option"

record AmountInput =
  valueInCents :: "jsnum nullable"

record AddFundsVariables =
  amount :: AmountInput
  hostFeePercent :: "jsnum nullable"
  platformFeePercent :: "jsnum nullable"
  description :: "string nullable"
  fromAccount :: AccountReference
  account :: AccountReference

text \<open>What the rendered form shows: the four lines of the details, and the state of the inputs.\<close>

record FormView =
  canAddHostFee :: bool
  showPlatformFee :: bool
  fundingAmount :: "jsnum nullable"
  hostFeePercent :: "jsnum nullable"
  hostFee :: jsnum
  platformFeePercent :: "jsnum nullable"
  platformFee :: jsnum
  netAmount :: jsnum
  submitDisabled :: bool
  submitLoading :: bool

text \<open>The \<^verbatim>\<open>Formik\<close> element inside the modal.\<close>

record Modal =
  initialValues :: FormValues
  validate :: "FormValues \<Rightarrow> (string \<times> FormError) list"
  onSubmit :: "FormValues \<Rightarrow> error + AddFundsVariables"
  children :: "FormikProps \<Rightarrow> FormView"

subsection \<open>Helpers\<close>

definition getInitialValues :: "PartialValues \<Rightarrow> FormValues" where
  "getInitialValues vs =
     \<lparr>FormValues.amount = (case PartialValues.amount vs of None \<Rightarrow> Null | Some v \<Rightarrow> v),
      hostFeePercent = (case PartialValues.hostFeePercent vs of None \<Rightarrow> Null | Some v \<Rightarrow> v),
      platformFeePercent =
        (case PartialValues.platformFeePercent vs of None \<Rightarrow> Val (Fin 0) | Some v \<Rightarrow> v),
      description = (case PartialValues.description vs of None \<Rightarrow> Val [] | Some v \<Rightarrow> v),
      fromAccount = (case PartialValues.fromAccount vs of None \<Rightarrow> Null | Some v \<Rightarrow> v),
      account = (case PartialValues.account vs of None \<Rightarrow> Undefined | Some v \<Rightarrow> v)\<rparr>"

text \<open>
  Modelled from the spec: \<^verbatim>\<open>requireFields\<close> of \<^verbatim>\<open>lib/form-utils\<close> is not among the
  sources. A required field is missing when it is \<open>undefined\<close> or \<open>null\<close> and, for a
  string, when it is empty; each missing field gets an error marker under its own key.
\<close>

fun absent :: "'a nullable \<Rightarrow> bool" where
  "absent (Val _) = False"
| "absent _ = True"

definition missing :: "FormValues \<Rightarrow> string \<Rightarrow> bool" where
  "missing vs field =
     (if field = ''amount'' then absent (FormValues.amount vs)
      else if field = ''hostFeePercent'' then absent (FormValues.hostFeePercent vs)
      else if field = ''platformFeePercent'' then absent (FormValues.platformFeePercent vs)
      else if field = ''description'' then \<not> truthy_str (FormValues.description vs)
      else if field = ''fromAccount'' then absent (FormValues.fromAccount vs)
      else if field = ''account'' then absent (FormValues.account vs)
      else True)"

definition requireFields :: "FormValues \<Rightarrow> string list \<Rightarrow> (string \<times> FormError) list" where
  "requireFields vs required =
     map (\<lambda>field. (field, FORM_FIELD_REQUIRED)) (filter (missing vs) required)"

definition validate' :: "FormValues \<Rightarrow> (string \<times> FormError) list" where
  "validate' vs = requireFields vs [''amount'', ''fromAccount'', ''description'']"

text \<open>
  Build an account reference. Reading \<^verbatim>\<open>input.id\<close> throws a TypeError when the input is
  \<open>null\<close> or \<open>undefined\<close>; \<^verbatim>\<open>typeof input.id === 'string'\<close> holds for a string only.
\<close>

definition buildAccountReference :: "Account nullable \<Rightarrow> error + AccountReference" where
  "buildAccountReference input =
     (case input of
        Val a \<Rightarrow>
          (case Account.id' a of
             Val (IdStr s) \<Rightarrow>
               Inr \<lparr>AccountReference.id' = Some (Account.id' a), legacyId = None\<rparr>
           | _ \<Rightarrow> Inr \<lparr>AccountReference.id' = None, legacyId = Some (Account.id' a)\<rparr>)
      | _ \<Rightarrow> Inl TypeError)"

text \<open>\<open>a.legacyId || a.id\<close>\<close>

definition legacyId_or_id :: "Account \<Rightarrow> ident nullable" where
  "legacyId_or_id a =
     (if truthy_num (Account.legacyId a)
      then (case Account.legacyId a of Val n \<Rightarrow> Val (IdNum n) | _ \<Rightarrow> Undefined)
      else Account.id' a)"

text \<open>\<open>a === b\<close> on two such values.\<close>

fun id_strict_eq :: "ident nullable \<Rightarrow> ident nullable \<Rightarrow> bool" where
  "id_strict_eq Undefined Undefined = True"
| "id_strict_eq Null Null = True"
| "id_strict_eq (Val (IdNum a)) (Val (IdNum b)) = num_strict_eq a b"
| "id_strict_eq (Val (IdStr a)) (Val (IdStr b)) = (a = b)"
| "id_strict_eq _ _ = False"

subsection \<open>The component\<close>

text \<open>The function given to \<^verbatim>\<open>Formik\<close> as its child: it renders the form from the form state.\<close>

definition renderForm :: "User \<Rightarrow> Account \<Rightarrow> Account \<Rightarrow> FormikProps \<Rightarrow> FormView" where
  "renderForm LoggedInUser host collective props =
     (let vs = values props;
          defaultHostFeePercent = Account.hostFeePercent collective;
          hostFeePercent = (if isNaN (FormValues.hostFeePercent vs) then defaultHostFeePercent
                            else FormValues.hostFeePercent vs);
          platformFeePercent = (if isNaN (FormValues.platformFeePercent vs) then Val (Fin 0)
                                else FormValues.platformFeePercent vs);
          hostFee = Math_round (js_mul (ToNumber (FormValues.amount vs))
                                  (js_div (ToNumber hostFeePercent) (Fin 100)));
          platformFee = Math_round (js_mul (ToNumber (FormValues.amount vs))
                                      (js_div (ToNumber platformFeePercent) (Fin 100)));
          canAddHostFee = (\<not> id_strict_eq (legacyId_or_id collective) (legacyId_or_id host))
      in \<lparr>canAddHostFee = canAddHostFee,
          showPlatformFee = isRoot LoggedInUser,
          fundingAmount = (if truthy_num (FormValues.amount vs) then FormValues.amount vs
                           else Val (Fin 0)),
          hostFeePercent = hostFeePercent,
          hostFee = hostFee,
          platformFeePercent = platformFeePercent,
          platformFee = platformFee,
          netAmount = js_sub (js_sub (ToNumber (FormValues.amount vs)) hostFee) platformFee,
          submitDisabled = (\<not> dirty props \<or> \<not> isValid props),
          submitLoading = isSubmitting props\<rparr>)"

text \<open>The variables of the mutation that submitting the form sends.\<close>

definition submitVariables :: "FormValues \<Rightarrow> error + AddFundsVariables" where
  "submitVariables vs =
     (case buildAccountReference (FormValues.fromAccount vs) of
        Inl e \<Rightarrow> Inl e
      | Inr fromRef \<Rightarrow>
          (case buildAccountReference (FormValues.account vs) of
             Inl e \<Rightarrow> Inl e
           | Inr accountRef \<Rightarrow>
               Inr \<lparr>AddFundsVariables.amount = \<lparr>valueInCents = FormValues.amount vs\<rparr>,
                    hostFeePercent = FormValues.hostFeePercent vs,
                    platformFeePercent = FormValues.platformFeePercent vs,
                    description = FormValues.description vs,
                    fromAccount = fromRef,
                    account = accountRef\<rparr>))"

text \<open>The component: \<open>None\<close> is \<^verbatim>\<open>null\<close>, nothing is rendered.\<close>

definition AddFundsModal :: "User option \<Rightarrow> Account \<Rightarrow> Account \<Rightarrow> Modal option" where
  "AddFundsModal LoggedInUser host collective =
     (let defaultHostFeePercent = Account.hostFeePercent collective
      in case LoggedInUser of
           None \<Rightarrow> None
         | Some user \<Rightarrow>
             Some \<lparr>initialValues =
                     getInitialValues
                       \<lparr>PartialValues.amount = None,
                        hostFeePercent = Some defaultHostFeePercent,
                        platformFeePercent = None, description = None, fromAccount = None,
                        account = Some (Val collective)\<rparr>,
                   validate = validate',
                   onSubmit = submitVariables,
                   children = renderForm user host collective\<rparr>)"

text \<open>
  The form state Formik derives from the initial and the current values: the form is
  dirty when the values differ from the initial ones, and valid when validation returns
  no error.
\<close>

definition formik :: "Modal \<Rightarrow> FormValues \<Rightarrow> bool \<Rightarrow> FormikProps" where
  "formik m vs submitting =
     \<lparr>values = vs, isSubmitting = submitting,
      isValid = (validate m vs = []), dirty = (vs \<noteq> initialValues m)\<rparr>"

section \<open>Vocabulary of the properties and example inputs\<close>

text \<open>\<^verbatim>\<open>typeof v === 'string'\<close>\<close>

fun is_string :: "ident nullable \<Rightarrow> bool" where
  "is_string (Val (IdStr s)) = True"
| "is_string _ = False"

fun is_finite :: "jsnum \<Rightarrow> bool" where
  "is_finite (Fin r) = True"
| "is_finite NegZero = True"
| "is_finite _ = False"

text \<open>The number \<open>n\<close> is an integer and no integer is closer to the rational \<open>y\<close>.\<close>

fun nearest_integer :: "rat \<Rightarrow> jsnum \<Rightarrow> bool" where
  "nearest_integer y (Fin r) = (r = of_int \<lfloor>r\<rfloor> \<and> \<bar>r - y\<bar> \<le> 1 / 2)"
| "nearest_integer y NegZero = (\<bar>y\<bar> \<le> 1 / 2)"
| "nearest_integer y _ = False"

definition exampleStats :: Stats where
  "exampleStats = \<lparr>totalRecurringDonations = Val (Fin 0), totalDonated = Val (Fin 2500),
     availableQuantity = Null\<rparr>"

definition exampleTier :: Tier where
  "exampleTier = \<lparr>Tier.id' = Fin 42, Tier.slug = ''backer'', Tier.name = ''backer'',
     Tier.currency = Null, Tier.interval = Null, Tier.endsAt = None, Tier.goal = Null,
     Tier.type = Val ''TIER'', Tier.stats = exampleStats\<rparr>"

definition exampleCollective :: Collective where
  "exampleCollective = \<lparr>Collective.slug = ''meetup'', Collective.currency = ''USD'',
     isActive = Val True, parentCollective = Some \<lparr>ParentCollective.slug = ''webpack''\<rparr>,
     Collective.endsAt = None\<rparr>"

definition exampleAccount :: Account where
  "exampleAccount = \<lparr>Account.id' = Val (IdStr ''rvelja97-pkzqbgq7''),
     Account.legacyId = Val (Fin 11004), Account.currency = Val ''USD'',
     Account.name = Val ''Open Source Collective'', Account.hostFeePercent = Val (Fin 15)\<rparr>"

definition exampleUser :: User where
  "exampleUser = \<lparr>isRoot = True\<rparr>"

definition feeValues :: "jsnum nullable \<Rightarrow> jsnum nullable \<Rightarrow> jsnum nullable \<Rightarrow> FormValues" where
  "feeValues a hp pp =
     \<lparr>FormValues.amount = a, FormValues.hostFeePercent = hp,
      FormValues.platformFeePercent = pp, FormValues.description = Val ''x'',
      FormValues.fromAccount = Val exampleAccount, FormValues.account = Val exampleAccount\<rparr>"

definition exampleProps :: "FormValues \<Rightarrow> FormikProps" where
  "exampleProps vs = \<lparr>values = vs, isSubmitting = False, isValid = True, dirty = True\<rparr>"

section \<open>Properties of the contribute-tier card\<close>

lemmas ct_defs = ContributeTier_def getContributionTypeFromTier_def isTierExpired_def
  isPastEvent_def exampleTier_def exampleCollective_def exampleStats_def
  TierTypes_PRODUCT_def TierTypes_TICKET_def TierTypes_MEMBERSHIP_def num_strict_eq_def

text \<open>The card renders unless it is a ticket of a collective without a parent.\<close>

lemma ContributeTier_returns:
  "getContributionTypeFromTier tier (isTierExpired now tier) \<noteq> TICKET \<or>
     parentCollective collective \<noteq> None
   \<Longrightarrow> \<exists>props. ContributeTier now collective tier = Inr props"
  by (auto simp: ContributeTier_def Let_def split: option.splits)

text \<open>
  C2, as the code has it: a tier whose own end date is in the past is classified
  \<open>TIER_PASSED\<close>, whatever its goal, type and interval and whatever the collective.
\<close>

theorem expired_tier_is_passed:
  "isTierExpired now tier \<Longrightarrow>
     \<exists>props. ContributeTier now collective tier = Inr props \<and>
             ContributeProps.type props = TIER_PASSED"
  by (simp add: ContributeTier_def getContributionTypeFromTier_def Let_def)

theorem expired_tier_is_passed_witness:
  "isTierExpired 10
     (exampleTier\<lparr>Tier.endsAt := Some 5, Tier.goal := Val (Fin 1000),
                  Tier.type := Val ''PRODUCT''\<rparr>) \<and>
   (\<exists>props. ContributeTier 10 exampleCollective
        (exampleTier\<lparr>Tier.endsAt := Some 5, Tier.goal := Val (Fin 1000),
                     Tier.type := Val ''PRODUCT''\<rparr>) = Inr props \<and>
      ContributeProps.type props = TIER_PASSED)"
proof -
  let ?t = "exampleTier\<lparr>Tier.endsAt := Some 5, Tier.goal := Val (Fin 1000),
                        Tier.type := Val ''PRODUCT''\<rparr>"
  have h: "isTierExpired 10 ?t"
    by (simp add: isTierExpired_def exampleTier_def)
  show ?thesis using h expired_tier_is_passed [OF h, of exampleCollective] by simp
qed

text \<open>
  C2 as stated fails: the end date of the collective is not an input of the classifier.
  A tier without an end date, in an event that ended at instant 5, is classified at
  instant 10 as a one-time contribution (and is disabled), not as passed.
\<close>

theorem past_event_tier_not_passed:
  "isPastEvent 10 (exampleCollective\<lparr>Collective.endsAt := Some 5\<rparr>) \<and>
   ContributeTier 10 (exampleCollective\<lparr>Collective.endsAt := Some 5\<rparr>) exampleTier =
     Inr \<lparr>route = ''orderCollectiveTierNew'',
          routeParams = \<lparr>collectiveSlug = ''meetup'', verb = ''contribute'', eventSlug = None,
                         tierSlug = Some ''backer'', tierId = Fin 42\<rparr>,
          ContributeProps.type = FINANCIAL_ONE_TIME, disableCTA = True,
          ContributeProps.goal = Null, amountRaised = Val (Fin 2500),
          ContributeProps.currency = Val ''USD'', ContributeProps.interval = Null\<rparr>"
  by (simp add: ct_defs)

text \<open>
  C3: the call to action is disabled exactly when the collective is not active, or is a
  past event, or the tier is expired, or the available quantity is the number zero; with
  an available quantity of \<open>null\<close> or \<open>undefined\<close>, an active collective that is not a
  past event and a tier that is not expired, it is enabled.
\<close>

theorem disabled_iff:
  "ContributeTier now collective tier = Inr props \<Longrightarrow>
     (disableCTA props \<longleftrightarrow>
        \<not> truthy_bool (isActive collective) \<or> isPastEvent now collective \<or>
        isTierExpired now tier \<or>
        availableQuantity (stats tier) = Val (Fin 0) \<or>
        availableQuantity (stats tier) = Val NegZero) \<and>
     (truthy_bool (isActive collective) \<and> \<not> isPastEvent now collective \<and>
      \<not> isTierExpired now tier \<and>
      (availableQuantity (stats tier) = Null \<or> availableQuantity (stats tier) = Undefined)
      \<longrightarrow> \<not> disableCTA props)"
proof -
  have q: "(case availableQuantity (stats tier) of
              Val q \<Rightarrow> num_strict_eq q (Fin 0) | _ \<Rightarrow> False) \<longleftrightarrow>
           availableQuantity (stats tier) = Val (Fin 0) \<or>
           availableQuantity (stats tier) = Val NegZero"
  proof (cases "availableQuantity (stats tier)")
    case (Val n)
    then show ?thesis by (cases n) (auto simp: num_strict_eq_def)
  qed simp_all
  assume "ContributeTier now collective tier = Inr props"
  then have "disableCTA props \<longleftrightarrow>
      \<not> (truthy_bool (isActive collective) \<and> \<not> isPastEvent now collective) \<or>
      isTierExpired now tier \<or>
      (case availableQuantity (stats tier) of
         Val q \<Rightarrow> num_strict_eq q (Fin 0) | _ \<Rightarrow> False)"
    by (auto simp: ContributeTier_def Let_def split: if_splits option.splits)
  with q show ?thesis by auto
qed

theorem disabled_iff_witness:
  "(\<exists>props. ContributeTier 10 exampleCollective exampleTier = Inr props \<and>
            \<not> disableCTA props) \<and>
   (\<exists>props. ContributeTier 10 exampleCollective
       (exampleTier\<lparr>stats := exampleStats\<lparr>availableQuantity := Val (Fin 0)\<rparr>\<rparr>) = Inr props \<and>
      disableCTA props)"
proof -
  let ?t = "exampleTier\<lparr>stats := exampleStats\<lparr>availableQuantity := Val (Fin 0)\<rparr>\<rparr>"
  obtain p where p: "ContributeTier 10 exampleCollective exampleTier = Inr p"
    by (simp add: ct_defs Let_def)
  obtain q where q: "ContributeTier 10 exampleCollective ?t = Inr q"
    by (simp add: ct_defs Let_def)
  from disabled_iff [OF p] have "\<not> disableCTA p"
    by (simp add: exampleCollective_def exampleTier_def exampleStats_def isPastEvent_def
        isTierExpired_def)
  moreover from disabled_iff [OF q] have "disableCTA q"
    by (simp add: exampleTier_def)
  ultimately show ?thesis using p q by blast
qed

text \<open>
  C6: a tier that is not expired and has a goal (a truthy \<^verbatim>\<open>tier.goal\<close>: a number other
  than zero) is classified \<open>FINANCIAL_GOAL\<close>, whatever its type: the goal is tested before
  the type.
\<close>

theorem goal_precedes_type:
  "\<not> isTierExpired now tier \<Longrightarrow> truthy_num (Tier.goal tier) \<Longrightarrow>
     \<exists>props. ContributeTier now collective tier = Inr props \<and>
             ContributeProps.type props = FINANCIAL_GOAL"
  by (simp add: ContributeTier_def getContributionTypeFromTier_def Let_def)

theorem goal_precedes_type_witness:
  "\<not> isTierExpired 10
       (exampleTier\<lparr>Tier.goal := Val (Fin 500000), Tier.type := Val TierTypes_PRODUCT\<rparr>) \<and>
   truthy_num (Tier.goal
       (exampleTier\<lparr>Tier.goal := Val (Fin 500000), Tier.type := Val TierTypes_PRODUCT\<rparr>)) \<and>
   (\<exists>props. ContributeTier 10 exampleCollective
       (exampleTier\<lparr>Tier.goal := Val (Fin 500000), Tier.type := Val TierTypes_PRODUCT\<rparr>)
         = Inr props \<and>
     ContributeProps.type props = FINANCIAL_GOAL)"
proof -
  let ?t = "exampleTier\<lparr>Tier.goal := Val (Fin 500000), Tier.type := Val TierTypes_PRODUCT\<rparr>"
  have h1: "\<not> isTierExpired 10 ?t" by (simp add: isTierExpired_def exampleTier_def)
  have h2: "truthy_num (Tier.goal ?t)" by simp
  show ?thesis using h1 h2 goal_precedes_type [OF h1 h2, of exampleCollective] by simp
qed

text \<open>
  C7: when the card renders, a tier classified \<open>TICKET\<close> is routed with the slug of the
  parent collective, the slug of the collective (the event) and the id of the tier; a
  tier of any other category with the slug of the collective, the slug of the tier and
  the id of the tier. Ids and slugs are those of the input.
\<close>

theorem route_params:
  "ContributeTier now collective tier = Inr props \<Longrightarrow>
     (ContributeProps.type props = TICKET \<longrightarrow>
        (\<exists>parent. parentCollective collective = Some parent \<and>
           route props = ''orderEventTier'' \<and>
           routeParams props =
             \<lparr>collectiveSlug = ParentCollective.slug parent, verb = ''events'',
              eventSlug = Some (Collective.slug collective), tierSlug = None,
              tierId = Tier.id' tier\<rparr>)) \<and>
     (ContributeProps.type props \<noteq> TICKET \<longrightarrow>
        route props = ''orderCollectiveTierNew'' \<and>
        routeParams props =
          \<lparr>collectiveSlug = Collective.slug collective, verb = ''contribute'',
           eventSlug = None, tierSlug = Some (Tier.slug tier), tierId = Tier.id' tier\<rparr>)"
  by (auto simp: ContributeTier_def Let_def split: if_splits option.splits)

theorem route_params_witness:
  "(\<exists>props. ContributeTier 10 exampleCollective
        (exampleTier\<lparr>Tier.type := Val TierTypes_TICKET\<rparr>) = Inr props \<and>
      ContributeProps.type props = TICKET \<and>
      routeParams props = \<lparr>collectiveSlug = ''webpack'', verb = ''events'',
        eventSlug = Some ''meetup'', tierSlug = None, tierId = Fin 42\<rparr>) \<and>
   (\<exists>props. ContributeTier 10 exampleCollective exampleTier = Inr props \<and>
      ContributeProps.type props \<noteq> TICKET \<and>
      routeParams props = \<lparr>collectiveSlug = ''meetup'', verb = ''contribute'',
        eventSlug = None, tierSlug = Some ''backer'', tierId = Fin 42\<rparr>)"
proof -
  let ?t = "exampleTier\<lparr>Tier.type := Val TierTypes_TICKET\<rparr>"
  obtain p where p: "ContributeTier 10 exampleCollective ?t = Inr p"
    and tp: "ContributeProps.type p = TICKET"
    by (simp add: ct_defs Let_def)
  obtain q where q: "ContributeTier 10 exampleCollective exampleTier = Inr q"
    and tq: "ContributeProps.type q \<noteq> TICKET"
    by (simp add: ct_defs Let_def)
  from route_params [OF p] tp
  have "routeParams p = \<lparr>collectiveSlug = ''webpack'', verb = ''events'',
        eventSlug = Some ''meetup'', tierSlug = None, tierId = Fin 42\<rparr>"
    by (auto simp: exampleCollective_def exampleTier_def)
  moreover from route_params [OF q] tq
  have "routeParams q = \<lparr>collectiveSlug = ''meetup'', verb = ''contribute'',
        eventSlug = None, tierSlug = Some ''backer'', tierId = Fin 42\<rparr>"
    by (auto simp: exampleCollective_def exampleTier_def)
  ultimately show ?thesis using p q tp tq by blast
qed

section \<open>Properties of the add-funds modal\<close>

text \<open>
  C9: the reference built from an account is \<open>{id: x}\<close> when the \<^verbatim>\<open>id\<close> \<open>x\<close> of the account
  is a string and \<open>{legacyId: x}\<close> otherwise; it has exactly one of the two keys.
\<close>

theorem account_reference_shape:
  "\<exists>r. buildAccountReference (Val a) = Inr r \<and>
       (if is_string (Account.id' a)
        then r = \<lparr>AccountReference.id' = Some (Account.id' a), AccountReference.legacyId = None\<rparr>
        else r = \<lparr>AccountReference.id' = None, AccountReference.legacyId = Some (Account.id' a)\<rparr>) \<and>
       (AccountReference.id' r = None) \<noteq> (AccountReference.legacyId r = None)"
proof (cases "Account.id' a")
  case (Val i)
  then show ?thesis by (cases i) (simp_all add: buildAccountReference_def)
qed (simp_all add: buildAccountReference_def)

theorem account_reference_shape_witness:
  "buildAccountReference (Val exampleAccount) =
     Inr \<lparr>AccountReference.id' = Some (Val (IdStr ''rvelja97-pkzqbgq7'')),
          AccountReference.legacyId = None\<rparr> \<and>
   buildAccountReference (Val (exampleAccount\<lparr>Account.id' := Val (IdNum (Fin 11004))\<rparr>)) =
     Inr \<lparr>AccountReference.id' = None,
          AccountReference.legacyId = Some (Val (IdNum (Fin 11004)))\<rparr>"
  using account_reference_shape [of exampleAccount]
    account_reference_shape [of "exampleAccount\<lparr>Account.id' := Val (IdNum (Fin 11004))\<rparr>"]
  by (auto simp: exampleAccount_def)

text \<open>Without an account, reading its \<^verbatim>\<open>id\<close> throws.\<close>

lemma buildAccountReference_no_account:
  "buildAccountReference Null = Inl TypeError"
  "buildAccountReference Undefined = Inl TypeError"
  by (simp_all add: buildAccountReference_def)

text \<open>
  C10: without a logged-in user the component returns \<^verbatim>\<open>null\<close>: there is no
  \<^verbatim>\<open>Formik\<close> element, hence no initial values, no render function that computes
  fees and no submit handler.
\<close>

theorem not_logged_in_renders_nothing:
  "AddFundsModal None host collective = None"
  by (simp add: AddFundsModal_def)

theorem not_logged_in_renders_nothing_witness:
  "AddFundsModal None exampleAccount exampleAccount = None \<and>
   AddFundsModal (Some exampleUser) exampleAccount exampleAccount \<noteq> None"
  using not_logged_in_renders_nothing [of exampleAccount exampleAccount]
  by (simp add: AddFundsModal_def Let_def)

text \<open>
  C5: validation returns one error marker for each of \<open>amount\<close>, \<open>fromAccount\<close> and
  \<open>description\<close> that is missing, each under the key of its field, and nothing else;
  it is a total function with no error result; whenever it returns a marker, the form
  state that Formik derives from the values is invalid and the submit button is
  disabled; and the values with amount 500, no source account and description \<open>x\<close>
  give exactly one marker, under \<open>fromAccount\<close>.
\<close>

theorem validate_required_fields:
  "(''amount'' \<in> fst ` set (validate' vs) \<longleftrightarrow> absent (FormValues.amount vs)) \<and>
   (''fromAccount'' \<in> fst ` set (validate' vs) \<longleftrightarrow> absent (FormValues.fromAccount vs)) \<and>
   (''description'' \<in> fst ` set (validate' vs) \<longleftrightarrow> \<not> truthy_str (FormValues.description vs)) \<and>
   fst ` set (validate' vs) \<subseteq> {''amount'', ''fromAccount'', ''description''} \<and>
   distinct (map fst (validate' vs)) \<and>
   (validate' vs \<noteq> [] \<longrightarrow>
      (\<forall>m. AddFundsModal (Some user) host collective = Some m \<longrightarrow>
           submitDisabled (children m (formik m vs submitting)))) \<and>
   validate' \<lparr>FormValues.amount = Val (Fin 500), FormValues.hostFeePercent = hfp,
              FormValues.platformFeePercent = pfp, FormValues.description = Val ''x'',
              FormValues.fromAccount = Null, FormValues.account = acc\<rparr>
     = [(''fromAccount'', FORM_FIELD_REQUIRED)]"
  by (auto simp: validate'_def requireFields_def missing_def AddFundsModal_def formik_def
      renderForm_def Let_def)

theorem validate_required_fields_witness:
  "validate' (feeValues (Val (Fin 500)) Null Null\<lparr>FormValues.fromAccount := Null\<rparr>) \<noteq> [] \<and>
   (\<exists>m. AddFundsModal (Some exampleUser) exampleAccount exampleAccount = Some m \<and>
        submitDisabled (children m
          (formik m (feeValues (Val (Fin 500)) Null Null\<lparr>FormValues.fromAccount := Null\<rparr>) False)))"
proof -
  let ?vs = "feeValues (Val (Fin 500)) Null Null\<lparr>FormValues.fromAccount := Null\<rparr>"
  have ne: "validate' ?vs \<noteq> []"
    by (simp add: validate'_def requireFields_def missing_def feeValues_def)
  obtain m where m: "AddFundsModal (Some exampleUser) exampleAccount exampleAccount = Some m"
    by (simp add: AddFundsModal_def Let_def)
  from validate_required_fields [of ?vs exampleUser exampleAccount exampleAccount False] ne m
  have "submitDisabled (children m (formik m ?vs False))" by blast
  with ne m show ?thesis by blast
qed

section \<open>Rounding to the nearest double\<close>

text \<open>Powers of two and the binary exponent.\<close>

lemma pow2_powi: "pow2 k = 2 powi k"
  by (simp add: pow2_def power_int_def inverse_eq_divide power_one_over [symmetric] del: power_one_over)

lemma pow2_pos [simp]: "0 < pow2 k"
  by (simp add: pow2_powi)

lemma pow2_add: "pow2 (a + b) = pow2 a * pow2 b"
  by (simp add: pow2_powi power_int_add)

lemma pow2_diff: "pow2 (a - b) = pow2 a / pow2 b"
  by (simp add: pow2_powi power_int_diff)

lemma pow2_mono: "a \<le> b \<Longrightarrow> pow2 a \<le> pow2 b"
  by (simp add: pow2_powi power_int_increasing)

lemma pow2_nat: "pow2 (int n) = 2 ^ n"
  by (simp add: pow2_def)

lemma pow2_of_int: "0 \<le> k \<Longrightarrow> pow2 k = rat_of_int (2 ^ nat k)"
  by (simp add: pow2_def)

lemma quotient_of_pos:
  assumes "0 < x"
  shows "0 < fst (quotient_of x)" "0 < snd (quotient_of x)"
    "x = of_int (fst (quotient_of x)) / of_int (snd (quotient_of x))"
proof -
  obtain n d where nd: "quotient_of x = (n, d)" by (cases "quotient_of x")
  then have d: "0 < d" by (rule quotient_of_denom_pos)
  from nd have x: "x = of_int n / of_int d" by (simp add: quotient_of_div)
  with assms d have "0 < n" by (simp add: zero_less_divide_iff)
  with nd d x show "0 < fst (quotient_of x)" "0 < snd (quotient_of x)"
    "x = of_int (fst (quotient_of x)) / of_int (snd (quotient_of x))" by simp_all
qed

lemma floor_log2_bounds:
  assumes "0 < x"
  shows "pow2 (floor_log2 x) \<le> x" "x < pow2 (floor_log2 x + 1)"
proof -
  define n where "n = fst (quotient_of x)"
  define d where "d = snd (quotient_of x)"
  from quotient_of_pos [OF assms] have n: "0 < n" and d: "0 < d"
    and x: "x = of_int n / of_int d" by (simp_all add: n_def d_def)
  define k where "k = bitlen n - bitlen d"
  from bitlen_bounds [OF n] have n1: "2 ^ nat (bitlen n - 1) \<le> n" and n2: "n < 2 ^ nat (bitlen n)"
    by simp_all
  from bitlen_bounds [OF d] have d1: "2 ^ nat (bitlen d - 1) \<le> d" and d2: "d < 2 ^ nat (bitlen d)"
    by simp_all
  have bn: "1 \<le> bitlen n" using n by (simp add: bitlen_alt_def)
  have bd: "1 \<le> bitlen d" using d by (simp add: bitlen_alt_def)
  have rn1: "pow2 (bitlen n - 1) \<le> rat_of_int n"
    using n1 bn by (simp add: pow2_of_int del: of_int_power)
  have rn2: "rat_of_int n < pow2 (bitlen n)"
    using n2 bn by (simp add: pow2_of_int del: of_int_power)
  have rd1: "pow2 (bitlen d - 1) \<le> rat_of_int d"
    using d1 bd by (simp add: pow2_of_int del: of_int_power)
  have rd2: "rat_of_int d < pow2 (bitlen d)"
    using d2 bd by (simp add: pow2_of_int del: of_int_power)
  have dpos: "0 < rat_of_int d" using d by simp
  have lower: "pow2 (k - 1) < x"
  proof -
    have "pow2 (k - 1) * rat_of_int d < pow2 (k - 1) * pow2 (bitlen d)"
      using rd2 by simp
    also have "\<dots> = pow2 (bitlen n - 1)"
      by (simp add: k_def pow2_add [symmetric])
    also have "\<dots> \<le> rat_of_int n" by (rule rn1)
    finally show ?thesis using dpos by (simp add: x pos_less_divide_eq)
  qed
  have upper: "x < pow2 (k + 1)"
  proof -
    have "rat_of_int n < pow2 (bitlen n)" by (rule rn2)
    also have "\<dots> = pow2 (k + 1) * pow2 (bitlen d - 1)"
      by (simp add: k_def pow2_add [symmetric])
    also have "\<dots> \<le> pow2 (k + 1) * rat_of_int d"
      using rd1 by simp
    finally show ?thesis using dpos by (simp add: x pos_divide_less_eq)
  qed
  have fl: "floor_log2 x = (if pow2 k \<le> x then k else k - 1)"
    by (simp add: floor_log2_def Let_def k_def n_def d_def)
  show "pow2 (floor_log2 x) \<le> x" using lower by (simp add: fl)
  show "x < pow2 (floor_log2 x + 1)" using upper by (auto simp: fl)
qed

lemma pow2_less_cancel: "pow2 a < pow2 b \<Longrightarrow> a < b"
  using pow2_mono [of b a] by (cases "a < b") auto

lemma pow2_Suc: "pow2 (k + 1) = 2 * pow2 k"
  by (simp add: pow2_powi power_int_add)

text \<open>Rounding to an integer moves a number by at most one half.\<close>

lemma round_half_even_error: "\<bar>of_int (round_half_even x) - x\<bar> \<le> 1 / 2"
proof -
  have "of_int \<lfloor>x\<rfloor> \<le> x" "x < of_int \<lfloor>x\<rfloor> + 1" by linarith+
  then show ?thesis by (auto simp: round_half_even_def Let_def) 
qed

lemma round_half_even_int [simp]: "round_half_even (of_int n) = n"
  by (simp add: round_half_even_def)

text \<open>
  In the normal range the rounded result is a finite non-zero double within a relative
  error of \<open>2^-53\<close>, and an integer below \<open>2^53\<close> in magnitude is a double.
\<close>

lemma fl_normal:
  assumes lo: "pow2 (- 1022) \<le> \<bar>x\<bar>" and hi: "\<bar>x\<bar> < pow2 1023"
  shows "\<exists>r. fl x = Fin r \<and> \<bar>r - x\<bar> \<le> \<bar>x\<bar> / 2 ^ 53 \<and> r \<noteq> 0"
proof -
  have "0 < pow2 (- 1022)" by simp
  with lo have ax: "0 < \<bar>x\<bar>" by linarith
  then have x0: "x \<noteq> 0" by simp
  define e where "e = floor_log2 \<bar>x\<bar>"
  from floor_log2_bounds [OF ax] have e1: "pow2 e \<le> \<bar>x\<bar>" and e2: "\<bar>x\<bar> < pow2 (e + 1)"
    by (simp_all add: e_def)
  have "pow2 (- 1022) < pow2 (e + 1)" using lo e2 by linarith
  then have ege: "- 1022 \<le> e" using pow2_less_cancel by fastforce
  define u where "u = pow2 (e - 52)"
  define m where "m = round_half_even (x / u)"
  define r where "r = of_int m * u"
  have upos: "0 < u" by (simp add: u_def)
  have "\<bar>of_int m - x / u\<bar> \<le> 1 / 2" unfolding m_def by (rule round_half_even_error)
  then have "\<bar>of_int m - x / u\<bar> * u \<le> 1 / 2 * u"
    using upos by (intro mult_right_mono) simp_all
  moreover have "\<bar>of_int m - x / u\<bar> * u = \<bar>r - x\<bar>"
  proof -
    have "\<bar>of_int m - x / u\<bar> * u = \<bar>(of_int m - x / u) * u\<bar>"
      using upos by (simp add: abs_mult)
    also have "(of_int m - x / u) * u = r - x"
      using upos by (simp add: r_def field_simps)
    finally show ?thesis .
  qed
  ultimately have ru: "\<bar>r - x\<bar> \<le> u / 2" by simp
  have "u = pow2 e / pow2 52" by (simp add: u_def pow2_diff)
  then have u53: "u / 2 = pow2 e / 2 ^ 53" by (simp add: pow2_def)
  have "pow2 e / 2 ^ 53 \<le> \<bar>x\<bar> / 2 ^ 53" using e1 by (simp add: divide_right_mono)
  with ru u53 have err: "\<bar>r - x\<bar> \<le> \<bar>x\<bar> / 2 ^ 53" by simp
  have small: "\<bar>x\<bar> / 2 ^ 53 < \<bar>x\<bar>" using ax by (simp add: field_simps)
  have rne: "r \<noteq> 0" using err small by auto
  have "\<bar>r\<bar> \<le> \<bar>x\<bar> + \<bar>r - x\<bar>" by linarith
  with err small have "\<bar>r\<bar> < 2 * \<bar>x\<bar>" by linarith
  also have "\<dots> < 2 * pow2 1023" using hi by simp
  also have "\<dots> = pow2 1024" using pow2_Suc [of 1023] by simp
  finally have rlt: "\<not> pow2 1024 \<le> \<bar>r\<bar>" by simp
  have "fl x = Fin r"
    using x0 ege rne rlt unfolding r_def m_def u_def e_def
    by (simp add: fl_def Let_def max_def)
  with err rne show ?thesis by blast
qed

lemma fl_int:
  assumes "\<bar>n\<bar> < 2 ^ 53"
  shows "fl (of_int n) = Fin (of_int n)"
proof (cases "n = 0")
  case True
  then show ?thesis by (simp add: fl_def)
next
  case False
  define x where "x = rat_of_int n"
  have x0: "x \<noteq> 0" using False by (simp add: x_def)
  have ax: "0 < \<bar>x\<bar>" using x0 by simp
  define e where "e = floor_log2 \<bar>x\<bar>"
  from floor_log2_bounds [OF ax] have e1: "pow2 e \<le> \<bar>x\<bar>" and e2: "\<bar>x\<bar> < pow2 (e + 1)"
    by (simp_all add: e_def)
  have "1 \<le> \<bar>x\<bar>" using False unfolding x_def
    by (metis abs_ge_zero abs_zero of_int_abs of_int_1_le_iff zero_less_abs_iff zless_add1_eq add_0 not_le less_le)
  then have "pow2 0 < pow2 (e + 1)" using e2 by (simp add: pow2_def)
  then have e0: "0 \<le> e" using pow2_less_cancel by fastforce
  have "\<bar>x\<bar> < pow2 53" using assms unfolding x_def
    by (simp add: pow2_of_int del: of_int_power)
  with e1 have "pow2 e < pow2 53" by linarith
  then have e52: "e \<le> 52" using pow2_less_cancel by fastforce
  define u where "u = pow2 (e - 52)"
  have u: "u = 1 / 2 ^ nat (52 - e)"
    using e52 by (cases "e = 52") (simp_all add: u_def pow2_def)
  have "x / u = of_int (n * 2 ^ nat (52 - e))" by (simp add: u x_def)
  then have "round_half_even (x / u) = n * 2 ^ nat (52 - e)"
    by (simp only: round_half_even_int)
  then have r: "of_int (round_half_even (x / u)) * u = x" by (simp add: u x_def)
  have "\<not> pow2 1024 \<le> \<bar>x\<bar>"
    using \<open>\<bar>x\<bar> < pow2 53\<close> pow2_mono [of 53 1024] by simp
  then have "fl x = Fin x"
    using x0 e0 r unfolding u_def e_def by (simp add: fl_def Let_def max_def)
  then show ?thesis by (simp add: x_def)
qed

section \<open>The fee split\<close>

lemma pow2_m1022_le: "pow2 (- 1022) \<le> 1 / 200"
proof -
  have "pow2 (- 1022) \<le> pow2 (- 8)" by (rule pow2_mono) simp
  also have "\<dots> \<le> 1 / 200" by (simp add: pow2_def)
  finally show ?thesis .
qed

lemma pow2_1023_ge: "2 ^ 53 \<le> pow2 1023"
proof -
  have "(2::rat) ^ 53 = pow2 53" by (simp add: pow2_def)
  also have "\<dots> \<le> pow2 1023" by (rule pow2_mono) simp
  finally show ?thesis .
qed

lemma Math_round_nearest:
  "is_finite x \<Longrightarrow> nearest_integer (val x) (Math_round x)"
proof (cases x)
  case (Fin r)
  define n where "n = \<lfloor>r + 1 / 2\<rfloor>"
  have lo: "of_int n \<le> r + 1 / 2" and hi: "r + 1 / 2 < of_int n + 1"
    unfolding n_def by linarith+
  show ?thesis
  proof (cases "n = 0 \<and> r < 0")
    case True
    with lo have "\<bar>r\<bar> \<le> 1 / 2" by simp
    with True Fin show ?thesis by (simp add: n_def [symmetric])
  next
    case False
    from lo hi have "\<bar>rat_of_int n - r\<bar> \<le> 1 / 2" by linarith
    with False Fin show ?thesis by (auto simp: n_def [symmetric])
  qed
qed simp_all

lemma nearest_integer_zero: "is_zero z \<Longrightarrow> nearest_integer 0 (Math_round z)"
  using Math_round_nearest [of z] by (cases z) (simp_all del: Math_round.simps)

lemma div_percent:
  fixes p :: int
  assumes p0: "p \<noteq> 0" and bound: "\<bar>p\<bar> \<le> 3 * 10 ^ 15"
  shows "\<exists>r. js_div (Fin (of_int p)) (Fin 100) = Fin r \<and> r \<noteq> 0 \<and>
             \<bar>r - of_int p / 100\<bar> \<le> \<bar>of_int p / 100\<bar> / 2 ^ 53"
proof -
  define x1 :: rat where "x1 = of_int p / 100"
  have p1: "1 \<le> \<bar>rat_of_int p\<bar>" using p0 by (simp flip: of_int_abs)
  have "\<bar>rat_of_int p\<bar> \<le> 3 * 10 ^ 15"
    using bound by (simp only: flip: of_int_abs) (metis of_int_le_iff of_int_numeral of_int_power of_int_mult)
  then have x1hi: "\<bar>x1\<bar> \<le> 3 * 10 ^ 13" by (simp add: x1_def)
  have x1lo: "1 / 100 \<le> \<bar>x1\<bar>" using p1 by (simp add: x1_def)
  have big: "(3 * 10 ^ 13 :: rat) < 2 ^ 53" by simp
  have "pow2 (- 1022) \<le> \<bar>x1\<bar>" using pow2_m1022_le x1lo by linarith
  moreover have "\<bar>x1\<bar> < pow2 1023" using x1hi big pow2_1023_ge by linarith
  ultimately obtain r1 where r1: "fl x1 = Fin r1" and e1: "\<bar>r1 - x1\<bar> \<le> \<bar>x1\<bar> / 2 ^ 53"
    and r10: "r1 \<noteq> 0" using fl_normal by blast
  have "js_div (Fin (of_int p)) (Fin 100) = Fin r1"
    using p0 r1 by (simp add: js_div_def x1_def)
  with e1 r10 show ?thesis by (auto simp: x1_def)
qed

text \<open>
  For integers \<open>a\<close> and \<open>p\<close> with \<open>|a * p| \<le> 3 * 10^15\<close>, the double
  \<^verbatim>\<open>a * (p / 100)\<close> is within one hundredth of the exact product, which is a multiple of
  one hundredth; so rounding the double gives an integer nearest to the exact product.
\<close>

lemma product_error:
  fixes a p :: int
  assumes a0: "a \<noteq> 0" and p0: "p \<noteq> 0" and bound: "\<bar>a * p\<bar> \<le> 3 * 10 ^ 15"
  shows "\<exists>r. js_mul (Fin (of_int a)) (js_div (Fin (of_int p)) (Fin 100)) = Fin r \<and>
             \<bar>r - of_int a * of_int p / 100\<bar> < 1 / 100"
proof -
  define x1 :: rat where "x1 = of_int p / 100"
  define x :: rat where "x = of_int a * of_int p / 100"
  have a1: "1 \<le> \<bar>rat_of_int a\<bar>" using a0 by (simp flip: of_int_abs)
  have p1: "1 \<le> \<bar>rat_of_int p\<bar>" using p0 by (simp flip: of_int_abs)
  have xx1: "\<bar>x\<bar> = \<bar>rat_of_int a\<bar> * \<bar>x1\<bar>" by (simp add: x_def x1_def abs_mult)
  have "\<bar>rat_of_int (a * p)\<bar> \<le> 3 * 10 ^ 15"
    using bound by (simp only: flip: of_int_abs) (metis of_int_le_iff of_int_numeral of_int_power of_int_mult)
  then have xb: "\<bar>x\<bar> \<le> 3 * 10 ^ 13" by (simp add: x_def abs_mult)
  have x1lo: "1 / 100 \<le> \<bar>x1\<bar>" using p1 by (simp add: x1_def)
  have x1x: "\<bar>x1\<bar> \<le> \<bar>x\<bar>" using a1 mult_right_mono [of 1 "\<bar>rat_of_int a\<bar>" "\<bar>x1\<bar>"] by (simp add: xx1)
  have big: "(3 * 10 ^ 13 :: rat) * 2 < 2 ^ 53" by simp
  have "\<bar>rat_of_int p\<bar> \<le> \<bar>rat_of_int (a * p)\<bar>"
    using a1 mult_right_mono [of 1 "\<bar>rat_of_int a\<bar>" "\<bar>rat_of_int p\<bar>"] by (simp add: abs_mult)
  with \<open>\<bar>rat_of_int (a * p)\<bar> \<le> 3 * 10 ^ 15\<close> have "\<bar>rat_of_int p\<bar> \<le> 3 * 10 ^ 15" by linarith
  then have pb: "\<bar>p\<bar> \<le> 3 * 10 ^ 15"
    by (simp only: flip: of_int_abs) (metis of_int_le_iff of_int_numeral of_int_power of_int_mult)
  from div_percent [OF p0 pb] obtain r1
    where div: "js_div (Fin (of_int p)) (Fin 100) = Fin r1" and r10: "r1 \<noteq> 0"
      and e1: "\<bar>r1 - x1\<bar> \<le> \<bar>x1\<bar> / 2 ^ 53"
    by (auto simp: x1_def)
  define x2 where "x2 = of_int a * r1"
  have e1': "\<bar>r1 - x1\<bar> \<le> \<bar>x1\<bar> / 2" 
  proof -
    have "\<bar>x1\<bar> / 2 ^ 53 \<le> \<bar>x1\<bar> / 2" by (simp add: field_simps)
    with e1 show ?thesis by linarith
  qed
  have r1lo: "\<bar>x1\<bar> / 2 \<le> \<bar>r1\<bar>" using e1' by linarith
  have r1hi: "\<bar>r1\<bar> \<le> 2 * \<bar>x1\<bar>" using e1' by linarith
  have x2abs: "\<bar>x2\<bar> = \<bar>rat_of_int a\<bar> * \<bar>r1\<bar>" by (simp add: x2_def abs_mult)
  have "\<bar>r1\<bar> \<le> \<bar>x2\<bar>" using a1 mult_right_mono [of 1 "\<bar>rat_of_int a\<bar>" "\<bar>r1\<bar>"] by (simp add: x2abs)
  with r1lo x1lo have x2lo: "1 / 200 \<le> \<bar>x2\<bar>" by linarith
  have x2hi: "\<bar>x2\<bar> \<le> 2 * \<bar>x\<bar>"
    using mult_left_mono [OF r1hi, of "\<bar>rat_of_int a\<bar>"] by (simp add: x2abs xx1)
  have "pow2 (- 1022) \<le> \<bar>x2\<bar>" using pow2_m1022_le x2lo by linarith
  moreover have "\<bar>x2\<bar> < pow2 1023" using x2hi xb big pow2_1023_ge by linarith
  ultimately obtain r2 where r2: "fl x2 = Fin r2" and e2: "\<bar>r2 - x2\<bar> \<le> \<bar>x2\<bar> / 2 ^ 53"
    using fl_normal by blast
  have mul: "js_mul (Fin (of_int a)) (Fin r1) = Fin r2"
    using a0 r10 r2 by (simp add: js_mul_def x2_def)
  have "x2 - x = of_int a * (r1 - x1)" by (simp add: x2_def x_def x1_def algebra_simps)
  then have "\<bar>x2 - x\<bar> = \<bar>rat_of_int a\<bar> * \<bar>r1 - x1\<bar>" by (simp add: abs_mult)
  also have "\<dots> \<le> \<bar>rat_of_int a\<bar> * (\<bar>x1\<bar> / 2 ^ 53)"
    using e1 by (intro mult_left_mono) simp_all
  also have "\<dots> = \<bar>x\<bar> / 2 ^ 53" by (simp add: xx1)
  finally have d1: "\<bar>x2 - x\<bar> \<le> \<bar>x\<bar> / 2 ^ 53" .
  have "\<bar>x2\<bar> / 2 ^ 53 \<le> (2 * \<bar>x\<bar>) / 2 ^ 53" using x2hi by (simp add: divide_right_mono)
  with e2 have d2: "\<bar>r2 - x2\<bar> \<le> (2 * \<bar>x\<bar>) / 2 ^ 53" by linarith
  have "\<bar>r2 - x\<bar> \<le> \<bar>r2 - x2\<bar> + \<bar>x2 - x\<bar>" by linarith
  with d1 d2 have "\<bar>r2 - x\<bar> \<le> (3 * \<bar>x\<bar>) / 2 ^ 53" by (simp add: field_simps)
  also have "\<dots> \<le> (3 * (3 * 10 ^ 13)) / 2 ^ 53" using xb by (simp add: divide_right_mono)
  also have "\<dots> < 1 / 100" by simp
  finally have "\<bar>r2 - x\<bar> < 1 / 100" .
  with div mul show ?thesis by (auto simp: x_def)
qed

lemma round_exact:
  fixes n :: int and r :: rat
  assumes "\<bar>r - of_int n / 100\<bar> < 1 / 100"
  shows "nearest_integer (of_int n / 100) (Math_round (Fin r))"
proof -
  define h where "h = \<lfloor>r + 1 / 2\<rfloor>"
  have lo: "of_int h \<le> r + 1 / 2" and hi: "r + 1 / 2 < of_int h + 1"
    unfolding h_def by linarith+
  from assms lo have "rat_of_int (100 * h - 51) < rat_of_int n" by (simp add: field_simps abs_less_iff)
  then have l: "100 * h - 50 \<le> n" by (simp only: of_int_less_iff)
  from assms hi have "rat_of_int n < rat_of_int (100 * h + 51)" by (simp add: field_simps abs_less_iff)
  then have u: "n \<le> 100 * h + 50" by (simp only: of_int_less_iff)
  from l have "rat_of_int (100 * h - 50) \<le> rat_of_int n" by (simp only: of_int_le_iff)
  moreover from u have "rat_of_int n \<le> rat_of_int (100 * h + 50)" by (simp only: of_int_le_iff)
  ultimately have near: "\<bar>rat_of_int h - of_int n / 100\<bar> \<le> 1 / 2"
    by (simp add: field_simps abs_le_iff)
  show ?thesis
  proof (cases "h = 0 \<and> r < 0")
    case True
    with near show ?thesis by (simp add: h_def [symmetric])
  next
    case False
    with near show ?thesis by (auto simp: h_def [symmetric])
  qed
qed

lemma fee_exact:
  fixes a p :: int
  assumes bound: "\<bar>a * p\<bar> \<le> 3 * 10 ^ 15" and pbound: "\<bar>p\<bar> \<le> 3 * 10 ^ 15"
  shows "nearest_integer (of_int a * of_int p / 100)
           (Math_round (js_mul (Fin (of_int a)) (js_div (Fin (of_int p)) (Fin 100))))"
proof (cases "a = 0 \<or> p = 0")
  case True
  have "is_zero (js_mul (Fin (of_int a)) (js_div (Fin (of_int p)) (Fin 100)))"
  proof (cases "p = 0")
    case True
    then show ?thesis by (simp add: js_mul_def js_div_def signed_zero_def)
  next
    case False
    with \<open>a = 0 \<or> p = 0\<close> have "a = 0" by simp
    moreover from div_percent [OF False pbound] obtain r1
      where "js_div (Fin (of_int p)) (Fin 100) = Fin r1" by blast
    ultimately show ?thesis by (simp add: js_mul_def signed_zero_def)
  qed
  from nearest_integer_zero [OF this] True show ?thesis by auto
next
  case False
  then obtain r where r: "js_mul (Fin (of_int a)) (js_div (Fin (of_int p)) (Fin 100)) = Fin r"
    and e: "\<bar>r - of_int a * of_int p / 100\<bar> < 1 / 100"
    using product_error [OF _ _ bound] by blast
  from e have "\<bar>r - of_int (a * p) / 100\<bar> < 1 / 100" by simp
  from round_exact [OF this] r show ?thesis by simp
qed

lemma rat_abs_le: "\<bar>k\<bar> \<le> b \<Longrightarrow> \<bar>rat_of_int k\<bar> \<le> rat_of_int b"
  by (metis of_int_abs of_int_le_iff)

lemma rat_abs_leD: "\<bar>rat_of_int k\<bar> \<le> rat_of_int b \<Longrightarrow> \<bar>k\<bar> \<le> b"
  by (metis of_int_abs of_int_le_iff)

lemma rat_abs_lt1: "\<bar>rat_of_int k\<bar> < 1 \<Longrightarrow> k = 0"
  by (metis abs_zero of_int_abs of_int_less_iff of_int_1 zabs_less_one_iff)

lemma nearest_integerD:
  "nearest_integer y n \<Longrightarrow>
     \<exists>k :: int. is_finite n \<and> val n = of_int k \<and> \<bar>of_int k - y\<bar> \<le> 1 / 2"
proof (cases n)
  case (Fin r)
  assume "nearest_integer y n"
  with Fin have "val n = of_int \<lfloor>r\<rfloor>" "\<bar>of_int \<lfloor>r\<rfloor> - y\<bar> \<le> 1 / 2" "is_finite n" by simp_all
  then show ?thesis by blast
next
  case NegZero
  assume "nearest_integer y n"
  with NegZero have "is_finite n" "val n = of_int 0" "\<bar>of_int 0 - y\<bar> \<le> 1 / 2" by simp_all
  then show ?thesis by blast
qed simp_all

lemma nearest_integer_int:
  assumes "nearest_integer (of_int k) n" and "k \<noteq> 0"
  shows "n = Fin (of_int k)"
proof (cases n)
  case (Fin r)
  with assms have r: "r = of_int \<lfloor>r\<rfloor>" and d: "\<bar>r - of_int k\<bar> \<le> 1 / 2" by simp_all
  from r d have "\<bar>rat_of_int (\<lfloor>r\<rfloor> - k)\<bar> \<le> 1 / 2" by simp
  then have "\<bar>rat_of_int (\<lfloor>r\<rfloor> - k)\<bar> < 1" by linarith
  then have "\<lfloor>r\<rfloor> - k = 0" by (rule rat_abs_lt1)
  with r Fin show ?thesis by simp
next
  case NegZero
  with assms have "\<bar>rat_of_int k\<bar> \<le> 1 / 2" by simp
  then have "\<bar>rat_of_int k\<bar> < 1" by linarith
  then have "k = 0" by (rule rat_abs_lt1)
  with assms show ?thesis by simp
qed (use assms in simp_all)

lemma js_sub_int:
  fixes i j :: int
  assumes i: "\<bar>i\<bar> < 2 ^ 52" and j: "\<bar>j\<bar> < 2 ^ 52" and y: "is_finite y" "val y = of_int j"
  shows "js_sub (Fin (of_int i)) y = Fin (of_int (i - j))"
proof -
  from i j have "\<bar>i - j\<bar> < 2 ^ 53" by simp
  from fl_int [OF this] have f: "fl (of_int i - of_int j) = Fin (of_int i - of_int j)" by simp
  show ?thesis
  proof (cases y)
    case (Fin r)
    with y f show ?thesis by (auto simp: js_sub_def signed_zero_def)
  next
    case NegZero
    with y have "j = 0" by simp
    with NegZero f show ?thesis by (auto simp: js_sub_def signed_zero_def)
  qed (use y in simp_all)
qed

lemma renderForm_numeric:
  assumes "FormValues.amount (values props) = Val a"
    and "FormValues.hostFeePercent (values props) = Val hp" and "hp \<noteq> NaN"
    and "FormValues.platformFeePercent (values props) = Val pp" and "pp \<noteq> NaN"
  shows "hostFee (renderForm u h c props) = Math_round (js_mul a (js_div hp (Fin 100)))"
    and "platformFee (renderForm u h c props) = Math_round (js_mul a (js_div pp (Fin 100)))"
    and "netAmount (renderForm u h c props) =
           js_sub (js_sub a (hostFee (renderForm u h c props))) (platformFee (renderForm u h c props))"
  using assms by (simp_all add: renderForm_def Let_def isNaN_def del: Math_round.simps)

lemma int_bound_rat:
  fixes k :: int and y :: rat
  assumes "\<bar>of_int k - y\<bar> \<le> 1 / 2" and "\<bar>y\<bar> \<le> of_int b"
  shows "\<bar>k\<bar> \<le> b + 1"
proof -
  have "rat_of_int (b + 1) = rat_of_int b + 1" by simp
  with assms have "\<bar>rat_of_int k\<bar> \<le> rat_of_int (b + 1)" by linarith
  then show ?thesis by (rule rat_abs_leD)
qed

lemma split_exact:
  fixes i p q :: int
  assumes a: "FormValues.amount (values props) = Val (Fin (of_int i))"
    and hp: "FormValues.hostFeePercent (values props) = Val (Fin (of_int p))"
    and pp: "FormValues.platformFeePercent (values props) = Val (Fin (of_int q))"
    and ib: "\<bar>i\<bar> \<le> 10 ^ 15" and pb: "\<bar>p\<bar> \<le> 3 * 10 ^ 15" and qb: "\<bar>q\<bar> \<le> 3 * 10 ^ 15"
    and ipb: "\<bar>i * p\<bar> \<le> 3 * 10 ^ 15" and iqb: "\<bar>i * q\<bar> \<le> 3 * 10 ^ 15"
  shows "\<exists>f g :: int.
           is_finite (hostFee (renderForm u h c props)) \<and>
           val (hostFee (renderForm u h c props)) = of_int f \<and>
           \<bar>of_int f - of_int i * of_int p / (100 :: rat)\<bar> \<le> 1 / 2 \<and>
           is_finite (platformFee (renderForm u h c props)) \<and>
           val (platformFee (renderForm u h c props)) = of_int g \<and>
           \<bar>of_int g - of_int i * of_int q / (100 :: rat)\<bar> \<le> 1 / 2 \<and>
           netAmount (renderForm u h c props) = Fin (of_int (i - f - g))"
    and "nearest_integer (of_int i * of_int p / 100) (hostFee (renderForm u h c props))"
    and "nearest_integer (of_int i * of_int q / 100) (platformFee (renderForm u h c props))"
proof -
  let ?v = "renderForm u h c props"
  note fees = renderForm_numeric [OF a hp _ pp, of u h c, simplified]
  show nh: "nearest_integer (of_int i * of_int p / 100) (hostFee ?v)"
    using fee_exact [OF ipb pb] by (simp only: fees)
  show np: "nearest_integer (of_int i * of_int q / 100) (platformFee ?v)"
    using fee_exact [OF iqb qb] by (simp only: fees)
  from nh obtain f :: int where f: "is_finite (hostFee ?v)" "val (hostFee ?v) = of_int f"
    "\<bar>of_int f - of_int i * of_int p / (100::rat)\<bar> \<le> 1 / 2"
    using nearest_integerD by blast
  from np obtain g :: int where g: "is_finite (platformFee ?v)" "val (platformFee ?v) = of_int g"
    "\<bar>of_int g - of_int i * of_int q / (100::rat)\<bar> \<le> 1 / 2"
    using nearest_integerD by blast
  have "\<bar>rat_of_int (i * p)\<bar> \<le> rat_of_int (3 * 10 ^ 15)"
    using ipb by (rule rat_abs_le)
  then have "\<bar>rat_of_int i * rat_of_int p / 100\<bar> \<le> rat_of_int (3 * 10 ^ 13)" by simp
  from int_bound_rat [OF f(3) this] have fb: "\<bar>f\<bar> \<le> 3 * 10 ^ 13 + 1" by simp
  have "\<bar>rat_of_int (i * q)\<bar> \<le> rat_of_int (3 * 10 ^ 15)"
    using iqb by (rule rat_abs_le)
  then have "\<bar>rat_of_int i * rat_of_int q / 100\<bar> \<le> rat_of_int (3 * 10 ^ 13)" by simp
  from int_bound_rat [OF g(3) this] have gb: "\<bar>g\<bar> \<le> 3 * 10 ^ 13 + 1" by simp
  have i52: "\<bar>i\<bar> < 2 ^ 52" using ib by simp
  have f52: "\<bar>f\<bar> < 2 ^ 52" using fb by simp
  have g52: "\<bar>g\<bar> < 2 ^ 52" using gb by simp
  have if52: "\<bar>i - f\<bar> < 2 ^ 52" using ib fb by simp
  have "js_sub (Fin (of_int i)) (hostFee ?v) = Fin (of_int (i - f))"
    by (rule js_sub_int [OF i52 f52 f(1) f(2)])
  moreover have "js_sub (Fin (of_int (i - f))) (platformFee ?v) = Fin (of_int (i - f - g))"
    by (rule js_sub_int [OF if52 g52 g(1) g(2)])
  ultimately have "netAmount ?v = Fin (of_int (i - f - g))" by (simp only: fees)
  with f g show "\<exists>f g :: int.
           is_finite (hostFee ?v) \<and> val (hostFee ?v) = of_int f \<and>
           \<bar>of_int f - of_int i * of_int p / (100 :: rat)\<bar> \<le> 1 / 2 \<and>
           is_finite (platformFee ?v) \<and> val (platformFee ?v) = of_int g \<and>
           \<bar>of_int g - of_int i * of_int q / (100 :: rat)\<bar> \<le> 1 / 2 \<and>
           netAmount ?v = Fin (of_int (i - f - g))" by blast
qed


text \<open>
  C1: with a numeric amount and numeric percentages, the host fee is
  \<^verbatim>\<open>Math.round(amount * (hostFeePercent / 100))\<close>, the platform fee likewise, and the net
  amount is the amount minus both fees. Each fee is an integer nearest to the product
  as JavaScript computes it, whenever that is finite. For an integer amount and integer
  percentages with \<open>|amount| \<le> 10^15\<close> and \<open>|amount * percent| \<le> 3 * 10^15\<close>, each fee
  is an integer nearest to the exact product \<open>amount * percent / 100\<close> and the net amount
  is exact. For 1000, 10 and 5 the fees are 100 and 50 and the net amount is 850.
\<close>

theorem fee_split:
  fixes a hp pp :: jsnum
  assumes a: "FormValues.amount (values props) = Val a"
    and hp: "FormValues.hostFeePercent (values props) = Val hp" and hpn: "hp \<noteq> NaN"
    and pp: "FormValues.platformFeePercent (values props) = Val pp" and ppn: "pp \<noteq> NaN"
  shows
    "hostFee (renderForm u h c props) = Math_round (js_mul a (js_div hp (Fin 100))) \<and>
     platformFee (renderForm u h c props) = Math_round (js_mul a (js_div pp (Fin 100))) \<and>
     netAmount (renderForm u h c props) =
       js_sub (js_sub a (hostFee (renderForm u h c props)))
         (platformFee (renderForm u h c props)) \<and>
     (is_finite (js_mul a (js_div hp (Fin 100))) \<longrightarrow>
        nearest_integer (val (js_mul a (js_div hp (Fin 100))))
          (hostFee (renderForm u h c props))) \<and>
     (is_finite (js_mul a (js_div pp (Fin 100))) \<longrightarrow>
        nearest_integer (val (js_mul a (js_div pp (Fin 100))))
          (platformFee (renderForm u h c props))) \<and>
     (\<forall>i p q :: int.
        a = Fin (of_int i) \<and> hp = Fin (of_int p) \<and> pp = Fin (of_int q) \<and>
        \<bar>i\<bar> \<le> 10 ^ 15 \<and> \<bar>p\<bar> \<le> 3 * 10 ^ 15 \<and> \<bar>q\<bar> \<le> 3 * 10 ^ 15 \<and>
        \<bar>i * p\<bar> \<le> 3 * 10 ^ 15 \<and> \<bar>i * q\<bar> \<le> 3 * 10 ^ 15 \<longrightarrow>
          nearest_integer (of_int i * of_int p / 100) (hostFee (renderForm u h c props)) \<and>
          nearest_integer (of_int i * of_int q / 100) (platformFee (renderForm u h c props)) \<and>
          netAmount (renderForm u h c props) =
            Fin (of_int i - val (hostFee (renderForm u h c props))
                          - val (platformFee (renderForm u h c props)))) \<and>
     (a = Fin 1000 \<and> hp = Fin 10 \<and> pp = Fin 5 \<longrightarrow>
        hostFee (renderForm u h c props) = Fin 100 \<and>
        platformFee (renderForm u h c props) = Fin 50 \<and>
        netAmount (renderForm u h c props) = Fin 850)"
proof -
  let ?v = "renderForm u h c props"
  note fees = renderForm_numeric [OF a hp hpn pp ppn, of u h c]
  have exact: "nearest_integer (of_int i * of_int p / 100) (hostFee ?v) \<and>
      nearest_integer (of_int i * of_int q / 100) (platformFee ?v) \<and>
      netAmount ?v = Fin (of_int i - val (hostFee ?v) - val (platformFee ?v))"
    if "a = Fin (of_int i)" "hp = Fin (of_int p)" "pp = Fin (of_int q)"
      "\<bar>i\<bar> \<le> 10 ^ 15" "\<bar>p\<bar> \<le> 3 * 10 ^ 15" "\<bar>q\<bar> \<le> 3 * 10 ^ 15"
      "\<bar>i * p\<bar> \<le> 3 * 10 ^ 15" "\<bar>i * q\<bar> \<le> 3 * 10 ^ 15" for i p q :: int
  proof -
    note s = split_exact [OF a [unfolded that(1)] hp [unfolded that(2)] pp [unfolded that(3)]
        that(4-8), of u h c]
    from s(1) have "netAmount ?v = Fin (of_int i - val (hostFee ?v) - val (platformFee ?v))"
      by auto
    with s(2,3) show ?thesis by simp
  qed
  have example: "hostFee ?v = Fin 100 \<and> platformFee ?v = Fin 50 \<and> netAmount ?v = Fin 850"
    if "a = Fin 1000" "hp = Fin 10" "pp = Fin 5"
  proof -
    from exact [of 1000 10 5] that
    have n1: "nearest_integer (of_int 100) (hostFee ?v)"
      and n2: "nearest_integer (of_int 50) (platformFee ?v)"
      and n3: "netAmount ?v = Fin (1000 - val (hostFee ?v) - val (platformFee ?v))"
      by simp_all
    from nearest_integer_int [OF n1] have "hostFee ?v = Fin 100" by simp
    moreover from nearest_integer_int [OF n2] have "platformFee ?v = Fin 50" by simp
    ultimately show ?thesis using n3 by simp
  qed
  have c4: "is_finite (js_mul a (js_div hp (Fin 100))) \<longrightarrow>
      nearest_integer (val (js_mul a (js_div hp (Fin 100)))) (hostFee ?v)"
    unfolding fees(1) using Math_round_nearest by blast
  have c5: "is_finite (js_mul a (js_div pp (Fin 100))) \<longrightarrow>
      nearest_integer (val (js_mul a (js_div pp (Fin 100)))) (platformFee ?v)"
    unfolding fees(2) using Math_round_nearest by blast
  have c6: "\<forall>i p q :: int.
      a = Fin (of_int i) \<and> hp = Fin (of_int p) \<and> pp = Fin (of_int q) \<and>
      \<bar>i\<bar> \<le> 10 ^ 15 \<and> \<bar>p\<bar> \<le> 3 * 10 ^ 15 \<and> \<bar>q\<bar> \<le> 3 * 10 ^ 15 \<and>
      \<bar>i * p\<bar> \<le> 3 * 10 ^ 15 \<and> \<bar>i * q\<bar> \<le> 3 * 10 ^ 15 \<longrightarrow>
        nearest_integer (of_int i * of_int p / 100) (hostFee ?v) \<and>
        nearest_integer (of_int i * of_int q / 100) (platformFee ?v) \<and>
        netAmount ?v = Fin (of_int i - val (hostFee ?v) - val (platformFee ?v))"
  proof (intro allI impI)
    fix i p q :: int
    assume "a = Fin (of_int i) \<and> hp = Fin (of_int p) \<and> pp = Fin (of_int q) \<and>
      \<bar>i\<bar> \<le> 10 ^ 15 \<and> \<bar>p\<bar> \<le> 3 * 10 ^ 15 \<and> \<bar>q\<bar> \<le> 3 * 10 ^ 15 \<and>
      \<bar>i * p\<bar> \<le> 3 * 10 ^ 15 \<and> \<bar>i * q\<bar> \<le> 3 * 10 ^ 15"
    then show "nearest_integer (of_int i * of_int p / 100) (hostFee ?v) \<and>
        nearest_integer (of_int i * of_int q / 100) (platformFee ?v) \<and>
        netAmount ?v = Fin (of_int i - val (hostFee ?v) - val (platformFee ?v))"
      by (elim conjE) (rule exact)
  qed
  have c7: "a = Fin 1000 \<and> hp = Fin 10 \<and> pp = Fin 5 \<longrightarrow>
      hostFee ?v = Fin 100 \<and> platformFee ?v = Fin 50 \<and> netAmount ?v = Fin 850"
    using example by blast
  show ?thesis by (intro conjI fees c4 c5 c6 c7)
qed

theorem fee_split_witness:
  "hostFee (renderForm exampleUser exampleAccount exampleAccount
     (exampleProps (feeValues (Val (Fin 1000)) (Val (Fin 10)) (Val (Fin 5))))) = Fin 100 \<and>
   platformFee (renderForm exampleUser exampleAccount exampleAccount
     (exampleProps (feeValues (Val (Fin 1000)) (Val (Fin 10)) (Val (Fin 5))))) = Fin 50 \<and>
   netAmount (renderForm exampleUser exampleAccount exampleAccount
     (exampleProps (feeValues (Val (Fin 1000)) (Val (Fin 10)) (Val (Fin 5))))) = Fin 850"
proof -
  let ?p = "exampleProps (feeValues (Val (Fin 1000)) (Val (Fin 10)) (Val (Fin 5)))"
  have a: "FormValues.amount (values ?p) = Val (Fin 1000)"
    and hp: "FormValues.hostFeePercent (values ?p) = Val (Fin 10)"
    and pp: "FormValues.platformFeePercent (values ?p) = Val (Fin 5)"
    by (simp_all add: exampleProps_def feeValues_def)
  have n1: "Fin 10 \<noteq> NaN" and n2: "Fin 5 \<noteq> NaN" by simp_all
  from fee_split [OF a hp n1 pp n2, of exampleUser exampleAccount exampleAccount]
  show ?thesis by blast
qed

text \<open>
  When the exact product lies halfway between two integers, the rounding of the double
  product decides: 50 at 29 percent (14.5) gives 14, and 150 at 7 percent (10.5) gives 11.
\<close>

lemma tie_50_29: "Math_round (js_mul (Fin 50) (js_div (Fin 29) (Fin 100))) = Fin 14"
  by code_simp

lemma tie_150_7: "Math_round (js_mul (Fin 150) (js_div (Fin 7) (Fin 100))) = Fin 11"
  by code_simp

lemma ties_follow_the_double_product:
  "hostFee (renderForm u h c (exampleProps (feeValues (Val (Fin 50)) (Val (Fin 29)) (Val (Fin 0)))))
     = Fin 14 \<and>
   hostFee (renderForm u h c (exampleProps (feeValues (Val (Fin 150)) (Val (Fin 7)) (Val (Fin 0)))))
     = Fin 11"
  by (simp add: renderForm_def exampleProps_def feeValues_def isNaN_def Let_def tie_50_29 tie_150_7
      del: Math_round.simps)




text \<open>
  C8 as stated fails: with an amount of 1 and percentages of 60 and 45 the fees round
  to 1 and 0, and the net amount is 0, not negative.
\<close>

theorem net_amount_zero_counterexample:
  "netAmount (renderForm exampleUser exampleAccount exampleAccount
     (exampleProps (feeValues (Val (Fin 1)) (Val (Fin 60)) (Val (Fin 45))))) = Fin 0"
proof -
  let ?p = "exampleProps (feeValues (Val (Fin 1)) (Val (Fin 60)) (Val (Fin 45)))"
  let ?v = "renderForm exampleUser exampleAccount exampleAccount ?p"
  have a: "FormValues.amount (values ?p) = Val (Fin (of_int 1))"
    and hp: "FormValues.hostFeePercent (values ?p) = Val (Fin (of_int 60))"
    and pp: "FormValues.platformFeePercent (values ?p) = Val (Fin (of_int 45))"
    by (simp_all add: exampleProps_def feeValues_def)
  from split_exact(1) [OF a hp pp, of exampleUser exampleAccount exampleAccount]
  obtain f g :: int
    where fe: "\<bar>rat_of_int f - of_int 1 * of_int 60 / 100\<bar> \<le> 1 / 2"
      and ge: "\<bar>rat_of_int g - of_int 1 * of_int 45 / 100\<bar> \<le> 1 / 2"
      and n: "netAmount ?v = Fin (of_int (1 - f - g))" by auto
  from fe have fe': "\<bar>rat_of_int f - 3 / 5\<bar> \<le> 1 / 2" by simp
  have "0 < rat_of_int f" using fe' by linarith
  moreover have "rat_of_int f < 2" using fe' by linarith
  ultimately have f: "f = 1" by simp
  from ge have ge': "\<bar>rat_of_int g - 9 / 20\<bar> \<le> 1 / 2" by simp
  have "- 1 < rat_of_int g" using ge' by linarith
  moreover have "rat_of_int g < 1" using ge' by linarith
  ultimately have g: "g = 0" by simp
  from n f g show ?thesis by simp
qed

text \<open>
  C8, as the code has it: for a positive integer amount and non-negative integer
  percentages whose sum exceeds 100 (with \<open>amount \<le> 10^15\<close> and
  \<open>amount * percent \<le> 3 * 10^15\<close>), the split is computed, the net amount is the amount
  minus the two fees with nothing that keeps it from being negative, it is never
  positive, and it is negative as soon as the amount exceeds 100.
\<close>

theorem net_amount_when_fees_exceed:
  fixes i p q :: int
  assumes a: "FormValues.amount (values props) = Val (Fin (of_int i))"
    and hp: "FormValues.hostFeePercent (values props) = Val (Fin (of_int p))"
    and pp: "FormValues.platformFeePercent (values props) = Val (Fin (of_int q))"
    and i0: "0 < i" and ib: "i \<le> 10 ^ 15" and p0: "0 \<le> p" and q0: "0 \<le> q"
    and ipb: "i * p \<le> 3 * 10 ^ 15" and iqb: "i * q \<le> 3 * 10 ^ 15"
    and over: "100 < p + q"
  shows "\<exists>n :: int.
           netAmount (renderForm u h c props) = Fin (of_int n) \<and>
           of_int n = of_int i - val (hostFee (renderForm u h c props))
                               - val (platformFee (renderForm u h c props)) \<and>
           n \<le> 0 \<and> (100 < i \<longrightarrow> n < 0)"
proof -
  let ?v = "renderForm u h c props"
  have "p * 1 \<le> p * i" using i0 p0 by (intro mult_left_mono) simp_all
  with ipb have pb: "\<bar>p\<bar> \<le> 3 * 10 ^ 15" using p0 by (simp add: mult.commute)
  have "q * 1 \<le> q * i" using i0 q0 by (intro mult_left_mono) simp_all
  with iqb have qb: "\<bar>q\<bar> \<le> 3 * 10 ^ 15" using q0 by (simp add: mult.commute)
  have ib': "\<bar>i\<bar> \<le> 10 ^ 15" using i0 ib by simp
  have ipb': "\<bar>i * p\<bar> \<le> 3 * 10 ^ 15" using i0 p0 ipb by (simp add: abs_mult)
  have iqb': "\<bar>i * q\<bar> \<le> 3 * 10 ^ 15" using i0 q0 iqb by (simp add: abs_mult)
  from split_exact(1) [OF a hp pp ib' pb qb ipb' iqb', of u h c]
  obtain f g :: int where f: "val (hostFee ?v) = of_int f"
    and fe: "\<bar>of_int f - of_int i * of_int p / (100 :: rat)\<bar> \<le> 1 / 2"
    and g: "val (platformFee ?v) = of_int g"
    and ge: "\<bar>of_int g - of_int i * of_int q / (100 :: rat)\<bar> \<le> 1 / 2"
    and n: "netAmount ?v = Fin (of_int (i - f - g))" by blast
  have "101 * i \<le> (p + q) * i" using over i0 by (intro mult_right_mono) simp_all
  then have "rat_of_int (101 * i) \<le> rat_of_int ((p + q) * i)" by (simp only: of_int_le_iff)
  then have sum: "101 * rat_of_int i / 100 \<le>
      of_int i * of_int p / 100 + of_int i * of_int q / 100"
    by (simp add: algebra_simps)
  define X :: rat where "X = of_int i * of_int p / 100"
  define Y :: rat where "Y = of_int i * of_int q / 100"
  from fe ge sum have "\<bar>rat_of_int f - X\<bar> \<le> 1 / 2" "\<bar>rat_of_int g - Y\<bar> \<le> 1 / 2"
    "101 * rat_of_int i / 100 \<le> X + Y" by (simp_all only: X_def Y_def)
  then have "rat_of_int i - rat_of_int f - rat_of_int g \<le> 1 - rat_of_int i / 100"
    by linarith
  then have "rat_of_int (i - f - g) \<le> 1 - rat_of_int i / 100" by simp
  define m where "m = i - f - g"
  from \<open>rat_of_int (i - f - g) \<le> 1 - rat_of_int i / 100\<close>
  have "100 * rat_of_int m \<le> 100 - rat_of_int i" by (simp add: m_def)
  also have "100 - rat_of_int i = rat_of_int (100 - i)" by simp
  finally have "rat_of_int (100 * m) \<le> rat_of_int (100 - i)" by simp
  then have key: "100 * m \<le> 100 - i" by (simp only: of_int_le_iff)
  from key i0 have "m \<le> 0" by linarith
  moreover from key have "100 < i \<longrightarrow> m < 0" by linarith
  ultimately show ?thesis using n f g unfolding m_def
    by (intro exI [of _ "i - f - g"]) simp
qed

theorem net_amount_when_fees_exceed_witness:
  "(0::int) < 1000 \<and> (100::int) < 60 + 50 \<and>
   netAmount (renderForm exampleUser exampleAccount exampleAccount
     (exampleProps (feeValues (Val (Fin 1000)) (Val (Fin 60)) (Val (Fin 50))))) = Fin (- 100)"
proof -
  let ?p = "exampleProps (feeValues (Val (Fin 1000)) (Val (Fin 60)) (Val (Fin 50)))"
  let ?v = "renderForm exampleUser exampleAccount exampleAccount ?p"
  have a: "FormValues.amount (values ?p) = Val (Fin (of_int 1000))"
    and hp: "FormValues.hostFeePercent (values ?p) = Val (Fin (of_int 60))"
    and pp: "FormValues.platformFeePercent (values ?p) = Val (Fin (of_int 50))"
    by (simp_all add: exampleProps_def feeValues_def)
  from net_amount_when_fees_exceed [OF a hp pp, of exampleUser exampleAccount exampleAccount]
  obtain n :: int where n: "netAmount ?v = Fin (of_int n)"
    and v: "rat_of_int n = of_int 1000 - val (hostFee ?v) - val (platformFee ?v)"
    and neg: "n < 0" by auto
  note s = split_exact(2,3) [OF a hp pp, of exampleUser exampleAccount exampleAccount]
  from s(1) have "nearest_integer (of_int 600) (hostFee ?v)" by simp
  from nearest_integer_int [OF this] have hf: "hostFee ?v = Fin 600" by simp
  from s(2) have "nearest_integer (of_int 500) (platformFee ?v)" by simp
  from nearest_integer_int [OF this] have pf: "platformFee ?v = Fin 500" by simp
  from v hf pf have "rat_of_int n = rat_of_int (- 100)" by simp
  then have "n = - 100" by (simp only: of_int_eq_iff)
  with n show ?thesis by simp
qed

end
